theory Spec2Isabelle
  imports Main
begin

section \<open>Strings of the host language\<close>

text \<open>
  The program is Python 3: a \<open>str\<close> is a sequence of Unicode code points, and
  \<open>len\<close>, iteration, \<open>isalnum\<close> and \<open>isspace\<close> work per code point. A string is
  therefore a list of code points (natural numbers), so that the Cyrillic texts the
  program answers with are one element per letter.
\<close>

type_synonym str = "nat list"

text \<open>An ASCII literal of the source, written readably.\<close>

definition ascii :: "string \<Rightarrow> str" where
  "ascii s = map of_char s"

text \<open>
  \<open>str.isspace\<close> for one code point. CPython classes exactly these 29 code points as
  whitespace (bidirectional type WS, B or S, or category Zs); \<open>str.strip()\<close> and
  \<open>str.split()\<close> without arguments use the same test.
\<close>

definition str_isspace :: "nat \<Rightarrow> bool" where
  "str_isspace c \<longleftrightarrow>
     (9 \<le> c \<and> c \<le> 13) \<or> (28 \<le> c \<and> c \<le> 32) \<or> c = 133 \<or> c = 160 \<or> c = 5760 \<or>
     (8192 \<le> c \<and> c \<le> 8202) \<or> c = 8232 \<or> c = 8233 \<or> c = 8239 \<or> c = 8287 \<or> c = 12288"

text \<open>\<open>s.strip()\<close>: leading and trailing whitespace removed.\<close>

definition str_strip :: "str \<Rightarrow> str" where
  "str_strip s = rev (dropWhile str_isspace (rev (dropWhile str_isspace s)))"

text \<open>
  \<open>s.split()\<close> without arguments: skip whitespace, take the characters up to the next
  whitespace as one word, go on behind it. No word is empty.
\<close>

function str_split :: "str \<Rightarrow> str list" where
  "str_split s =
     (case dropWhile str_isspace s of
        [] \<Rightarrow> []
      | c # cs \<Rightarrow>
          (c # takeWhile (\<lambda>e. \<not> str_isspace e) cs)
            # str_split (dropWhile (\<lambda>e. \<not> str_isspace e) cs))"
  by pat_completeness auto
termination
proof (relation "measure length")
  show "wf (measure length)" by simp
next
  fix s :: str and c cs
  assume "dropWhile str_isspace s = c # cs"
  then have "length cs < length s"
    using length_dropWhile_le [of str_isspace s] by simp
  moreover have "length (dropWhile (\<lambda>e. \<not> str_isspace e) cs) \<le> length cs"
    by (rule length_dropWhile_le)
  ultimately show "(dropWhile (\<lambda>e. \<not> str_isspace e) cs, s) \<in> measure length"
    by simp
qed

declare str_split.simps [simp del]

text \<open>\<open>sep.join(ws)\<close>.\<close>

fun str_join :: "str \<Rightarrow> str list \<Rightarrow> str" where
  "str_join sep [] = []"
| "str_join sep [w] = w"
| "str_join sep (w # v # ws) = w @ sep @ str_join sep (v # ws)"

section \<open>The text normalizer\<close>

text \<open>
  \<open>clean_text\<close> (api.py, line 79):
  \<^verbatim>\<open>" ".join(''.join(e for e in text.lower() if e.isalnum() or e.isspace()).split())\<close>

  \<open>str.lower\<close> and \<open>str.isalnum\<close> read the Unicode database of the host, which is
  not part of the repository: they are the parameters \<open>lower\<close> (on whole strings,
  since the lowercase of a letter may depend on its neighbours and may be several
  code points) and \<open>isalnum\<close>.
\<close>

definition clean_text :: "(str \<Rightarrow> str) \<Rightarrow> (nat \<Rightarrow> bool) \<Rightarrow> str \<Rightarrow> str" where
  "clean_text lower isalnum text =
     str_join [32] (str_split (filter (\<lambda>e. isalnum e \<or> str_isspace e) (lower text)))"

text \<open>
  The host's tables on ASCII: \<open>A\<close> to \<open>Z\<close> have the lowercase letters \<open>a\<close> to \<open>z\<close>,
  the alphanumerics are the digits and the letters. On a text that is ASCII only, the
  host computes what these compute; they are used here for concrete runs on such texts.
\<close>

definition ascii_lower :: "str \<Rightarrow> str" where
  "ascii_lower s = map (\<lambda>c. if 65 \<le> c \<and> c \<le> 90 then c + 32 else c) s"

definition ascii_isalnum :: "nat \<Rightarrow> bool" where
  "ascii_isalnum c \<longleftrightarrow> (48 \<le> c \<and> c \<le> 57) \<or> (65 \<le> c \<and> c \<le> 90) \<or> (97 \<le> c \<and> c \<le> 122)"

section \<open>The similarity scorer\<close>

text \<open>
  Modelled from the spec: \<open>fuzz.ratio\<close> of the fuzzywuzzy library, which api.py imports
  and calls (line 160) and which is not part of the repository. The spec (4.3) describes
  it as a normalized edit-distance ratio, Levenshtein-based, an integer from 0 to 100,
  with \<open>similarity(x,x) = 100\<close> and \<open>similarity("","") = 100\<close>. The model is the
  ratio \<open>(|a| + |b| - d) / (|a| + |b|)\<close> as a percentage rounded to the nearest integer
  (a tie goes to the even one), where \<open>d\<close> is the edit distance in which an insertion
  and a deletion cost 1 and a substitution costs 2; two empty strings score 100.
\<close>

fun lev :: "str \<Rightarrow> str \<Rightarrow> nat" where
  "lev [] ys = length ys"
| "lev xs [] = length xs"
| "lev (x # xs) (y # ys) =
     min (min (lev xs (y # ys) + 1) (lev (x # xs) ys + 1))
         (lev xs ys + (if x = y then 0 else 2))"

definition round_half_even :: "int \<Rightarrow> int \<Rightarrow> int" where
  "round_half_even n d =
     (let q = n div d; r = n mod d
      in if 2 * r < d then q else if d < 2 * r then q + 1
         else if even q then q else q + 1)"

definition similarity :: "str \<Rightarrow> str \<Rightarrow> int" where
  "similarity a b =
     (let lensum = int (length a) + int (length b)
      in if lensum = 0 then 100
         else round_half_even (100 * (lensum - int (lev a b))) lensum)"

section \<open>The session store and the two endpoints\<close>

text \<open>
  A row of the table \<open>user_sessions\<close> (class \<open>UserSession\<close>, lines 22 to 38). The
  column \<open>session_id\<close> is unique and not nullable, so the table is a finite map from
  the session id to the other columns; the surrogate key \<open>id\<close> is never read and is
  left out. \<open>original_text\<close> and \<open>state\<close> are nullable. The same record is the
  in-memory object: an attribute that was never assigned reads as \<open>None\<close>.
\<close>

record UserSession =
  original_text :: "str option"
  state :: "str option"

type_synonym user_sessions = "str \<rightharpoonup> UserSession"

text \<open>
  \<open>UserSession(session_id=session_id)\<close>: the constructor assigns the keyword arguments and
  nothing else. The column default of \<open>state\<close> is a default of the INSERT statement, so
  the attribute of the new object is \<open>None\<close> until the row is written.
\<close>

definition new_UserSession :: UserSession where
  "new_UserSession = \<lparr>original_text = None, state = None\<rparr>"

definition awaiting_original :: str where
  "awaiting_original = ascii ''awaiting_original''"

definition awaiting_user_input :: str where
  "awaiting_user_input = ascii ''awaiting_user_input''"

text \<open>The INSERT of a new object: a column that has a default and no value gets the default.\<close>

definition insert_defaults :: "UserSession \<Rightarrow> UserSession" where
  "insert_defaults s =
     s\<lparr>state := (case state s of None \<Rightarrow> Some awaiting_original | Some v \<Rightarrow> Some v)\<rparr>"

text \<open>The JSON body of a request; \<open>None\<close> is a key that is absent (\<open>data.get\<close>).\<close>

record request =
  user_message :: "str option"
  session_id :: "str option"

text \<open>
  The JSON answer: \<open>{"response": {"text": ..., "end_session": ...}, "buttons": [...]}\<close>,
  where \<open>buttons = None\<close> is an answer without the key \<open>buttons\<close>. A button is
  \<open>{"title": ..., "action": {"type": ..., "label": ...}}\<close>.
\<close>

record button =
  title :: str
  action_type :: str
  action_label :: str

record reply =
  reply_text :: str
  end_session :: bool
  buttons :: "button list option"

text \<open>
  The one failure the endpoints can raise on a well-typed body: the INSERT of a row
  without \<open>session_id\<close> violates NOT NULL; \<open>session_scope\<close> rolls back and re-raises.
\<close>

datatype error = IntegrityError

text \<open>The texts of the answers, as the code points of the literals in api.py.\<close>

definition text_enter :: str where
  \<comment> \<open>line 110: "Enter a text to continue."\<close>
  "text_enter = [1042, 1074, 1077, 1076, 1080, 1090, 1077, 32, 1090, 1077, 1082, 1089, 1090, 32,
     1076, 1083, 1103, 32, 1087, 1088, 1086, 1076, 1086, 1083, 1078, 1077, 1085, 1080, 1103, 46]"

definition text_saved :: str where
  \<comment> \<open>line 133: "The original text is saved. Now retell it as you remember it."\<close>
  "text_saved = [1054, 1088, 1080, 1075, 1080, 1085, 1072, 1083, 1100, 1085, 1099, 1081, 32, 1090,
     1077, 1082, 1089, 1090, 32, 1089, 1086, 1093, 1088, 1072, 1085, 1105, 1085, 46, 32, 1058, 1077,
     1087, 1077, 1088, 1100, 32, 1088, 1072, 1089, 1089, 1082, 1072, 1078, 1080, 1090, 1077, 32,
     1077, 1075, 1086, 44, 32, 1082, 1072, 1082, 32, 1074, 1099, 32, 1079, 1072, 1087, 1086, 1084,
     1085, 1080, 1083, 1080, 46]"

definition text_already :: str where
  \<comment> \<open>line 141: "You have already entered the original text. Now retell it ..."\<close>
  "text_already = [1042, 1099, 32, 1091, 1078, 1077, 32, 1074, 1074, 1077, 1083, 1080, 32, 1086,
     1088, 1080, 1075, 1080, 1085, 1072, 1083, 1100, 1085, 1099, 1081, 32, 1090, 1077, 1082, 1089,
     1090, 46, 32, 1058, 1077, 1087, 1077, 1088, 1100, 32, 1088, 1072, 1089, 1089, 1082, 1072, 1078,
     1080, 1090, 1077, 32, 1077, 1075, 1086, 44, 32, 1082, 1072, 1082, 32, 1074, 1099, 32, 1079,
     1072, 1087, 1086, 1084, 1085, 1080, 1083, 1080, 46]"

definition text_missing :: str where
  \<comment> \<open>line 152: "Error: the original text was not found. Enter the text again."\<close>
  "text_missing = [1054, 1096, 1080, 1073, 1082, 1072, 58, 32, 1054, 1088, 1080, 1075, 1080, 1085,
     1072, 1083, 1100, 1085, 1099, 1081, 32, 1090, 1077, 1082, 1089, 1090, 32, 1085, 1077, 32, 1085,
     1072, 1081, 1076, 1077, 1085, 46, 32, 1042, 1074, 1077, 1076, 1080, 1090, 1077, 32, 1090, 1077,
     1082, 1089, 1090, 32, 1079, 1072, 1085, 1086, 1074, 1086, 46]"

definition text_percent :: str where
  \<comment> \<open>line 163, before the number: "Match percentage: "\<close>
  "text_percent = [1055, 1088, 1086, 1094, 1077, 1085, 1090, 32, 1089, 1086, 1074, 1087, 1072,
     1076, 1077, 1085, 1080, 1103, 58, 32]"

definition text_original :: str where
  \<comment> \<open>lines 163 and 164, behind the number: a percent sign, two newlines, "Original text: "\<close>
  "text_original = [37, 10, 10, 1054, 1088, 1080, 1075, 1080, 1085, 1072, 1083, 1100, 1085, 1099,
     1081, 32, 1090, 1077, 1082, 1089, 1090, 58, 32]"

definition text_yours :: str where
  \<comment> \<open>lines 164 and 165: two newlines, "Your text: "\<close>
  "text_yours = [10, 10, 1042, 1072, 1096, 32, 1090, 1077, 1082, 1089, 1090, 58, 32]"

definition text_button :: str where
  \<comment> \<open>line 171, title and label of the button: "Reset"\<close>
  "text_button = [1057, 1073, 1088, 1086, 1089, 1080, 1090, 1100]"

definition text_unknown :: str where
  \<comment> \<open>line 178: "An error occurred. Try again."\<close>
  "text_unknown = [1055, 1088, 1086, 1080, 1079, 1086, 1096, 1083, 1072, 32, 1086, 1096, 1080,
     1073, 1082, 1072, 46, 32, 1055, 1086, 1087, 1088, 1086, 1073, 1091, 1081, 1090, 1077, 32, 1089,
     1085, 1086, 1074, 1072, 46]"

definition text_reset_done :: str where
  \<comment> \<open>line 211: "The data is reset. Enter a new text."\<close>
  "text_reset_done = [1044, 1072, 1085, 1085, 1099, 1077, 32, 1089, 1073, 1088, 1086, 1096, 1077,
     1085, 1099, 46, 32, 1042, 1074, 1077, 1076, 1080, 1090, 1077, 32, 1085, 1086, 1074, 1099, 1081,
     32, 1090, 1077, 1082, 1089, 1090, 46]"

definition text_no_session :: str where
  \<comment> \<open>line 219: "The session is not found. Enter a new text."\<close>
  "text_no_session = [1057, 1077, 1089, 1089, 1080, 1103, 32, 1085, 1077, 32, 1085, 1072, 1081,
     1076, 1077, 1085, 1072, 46, 32, 1042, 1074, 1077, 1076, 1080, 1090, 1077, 32, 1085, 1086, 1074,
     1099, 1081, 32, 1090, 1077, 1082, 1089, 1090, 46]"

text \<open>An answer without buttons; \<open>end_session\<close> is \<open>False\<close> in every answer.\<close>

definition plain :: "str \<Rightarrow> reply" where
  "plain t = \<lparr>reply_text = t, end_session = False, buttons = None\<rparr>"

text \<open>\<open>str(n)\<close> for an integer, as the f-string of line 163 formats the score.\<close>

fun digits :: "nat \<Rightarrow> str" where
  "digits n = (if n < 10 then [48 + n] else digits (n div 10) @ [48 + n mod 10])"

declare digits.simps [simp del]

definition str_of_int :: "int \<Rightarrow> str" where
  "str_of_int i = (if i < 0 then 45 # digits (nat (- i)) else digits (nat i))"

text \<open>\<open>not x\<close> for an optional string: \<open>None\<close> and the empty string are both false.\<close>

definition is_not :: "str option \<Rightarrow> bool" where
  "is_not x \<longleftrightarrow> x = None \<or> x = Some []"

text \<open>
  \<open>db_session.query(UserSession).filter_by(session_id=session_id).first()\<close>: no row
  has a null \<open>session_id\<close>.
\<close>

definition query_first :: "user_sessions \<Rightarrow> str option \<Rightarrow> UserSession option" where
  "query_first db sid = (case sid of None \<Rightarrow> None | Some k \<Rightarrow> db k)"

text \<open>
  Leaving \<open>with session_scope()\<close> by \<open>return\<close>: \<open>session.commit()\<close> writes the
  object. A new object (\<open>pending\<close>) is inserted with the column defaults, which fails
  without a \<open>session_id\<close>; a loaded one is updated in place. On failure the transaction
  is rolled back and the exception leaves the endpoint.
\<close>

definition commit :: "user_sessions \<Rightarrow> str option \<Rightarrow> bool \<Rightarrow> UserSession \<Rightarrow> reply
    \<Rightarrow> (error + reply) \<times> user_sessions" where
  "commit db sid pending session rep =
     (case sid of
        None \<Rightarrow> if pending then (Inl IntegrityError, db) else (Inr rep, db)
      | Some k \<Rightarrow>
          (Inr rep, db(k \<mapsto> (if pending then insert_defaults session else session))))"

text \<open>
  \<open>handler\<close> (lines 83 to 181). \<open>ratio\<close> is \<open>fuzz.ratio\<close>, \<open>lower\<close> and
  \<open>isalnum\<close> are the host's tables that \<open>clean_text\<close> reads.
\<close>

definition handler :: "(str \<Rightarrow> str) \<Rightarrow> (nat \<Rightarrow> bool) \<Rightarrow> (str \<Rightarrow> str \<Rightarrow> int)
    \<Rightarrow> request \<Rightarrow> user_sessions \<Rightarrow> (error + reply) \<times> user_sessions" where
  "handler lower isalnum ratio data db =
     (let um = str_strip (case user_message data of None \<Rightarrow> [] | Some m \<Rightarrow> m);
          sid = session_id data
      in if um = [] then (Inr (plain text_enter), db)
         else
           (let found = query_first db sid;
                session = (case found of None \<Rightarrow> new_UserSession | Some r \<Rightarrow> r);
                pending = (found = None)
            in if state session = Some awaiting_original then
                 if is_not (original_text session) then
                   commit db sid pending
                     (session\<lparr>original_text := Some um, state := Some awaiting_user_input\<rparr>)
                     (plain text_saved)
                 else commit db sid pending session (plain text_already)
               else if state session = Some awaiting_user_input then
                 if is_not (original_text session) then
                   commit db sid pending session (plain text_missing)
                 else
                   (let original = the (original_text session);
                        original_clean = clean_text lower isalnum original;
                        user_clean = clean_text lower isalnum um;
                        similarity = ratio original_clean user_clean;
                        response_text = text_percent @ str_of_int similarity @ text_original
                                          @ original @ text_yours @ um
                    in commit db sid pending session
                         \<lparr>reply_text = response_text, end_session = False,
                          buttons = Some [\<lparr>title = text_button, action_type = ascii ''text'',
                                            action_label = text_button\<rparr>]\<rparr>)
               else commit db sid pending session (plain text_unknown)))"

text \<open>\<open>reset\<close> (lines 185 to 222).\<close>

definition reset :: "request \<Rightarrow> user_sessions \<Rightarrow> (error + reply) \<times> user_sessions" where
  "reset data db =
     (let sid = session_id data
      in case query_first db sid of
           Some session \<Rightarrow>
             commit db sid False (session\<lparr>original_text := None, state := Some awaiting_original\<rparr>)
               (plain text_reset_done)
         | None \<Rightarrow> (Inr (plain text_no_session), db))"

text \<open>A sequence of requests to the two endpoints, run against the store in order.\<close>

datatype call = Handler request | Reset request

fun run :: "(str \<Rightarrow> str) \<Rightarrow> (nat \<Rightarrow> bool) \<Rightarrow> (str \<Rightarrow> str \<Rightarrow> int) \<Rightarrow> call list
    \<Rightarrow> user_sessions \<Rightarrow> user_sessions" where
  "run lower isalnum ratio [] db = db"
| "run lower isalnum ratio (Handler data # cs) db =
     run lower isalnum ratio cs (snd (handler lower isalnum ratio data db))"
| "run lower isalnum ratio (Reset data # cs) db =
     run lower isalnum ratio cs (snd (reset data db))"

text \<open>The buttons of an answer; a request that fails answers nothing.\<close>

definition buttons_of :: "(error + reply) \<times> user_sessions \<Rightarrow> button list option" where
  "buttons_of r = (case fst r of Inl e \<Rightarrow> None | Inr rep \<Rightarrow> buttons rep)"

text \<open>The invariant of the data model, for one row and for the whole table.\<close>

definition row_ok :: "UserSession \<Rightarrow> bool" where
  "row_ok s \<longleftrightarrow> (original_text s \<noteq> None) = (state s = Some awaiting_user_input)"

definition store_ok :: "user_sessions \<Rightarrow> bool" where
  "store_ok db \<longleftrightarrow> (\<forall>k s. db k = Some s \<longrightarrow> row_ok s)"

section \<open>The normalizer as the specification describes it\<close>

text \<open>
  The specification (4.1) gives the normalizer as an algorithm in words: lowercase the
  input; retain only the characters classified as alphanumeric or whitespace; collapse
  every run of whitespace into a single ASCII space; trim leading and trailing space.
  \<open>normalize_spec\<close> follows these words step by step, to be compared with
  \<open>clean_text\<close>, which follows the code.
\<close>

fun collapse_ws :: "str \<Rightarrow> str" where
  "collapse_ws [] = []"
| "collapse_ws [c] = [if str_isspace c then 32 else c]"
| "collapse_ws (c # d # cs) =
     (if str_isspace c then
        (if str_isspace d then collapse_ws (d # cs) else 32 # collapse_ws (d # cs))
      else c # collapse_ws (d # cs))"

definition trim_spaces :: "str \<Rightarrow> str" where
  "trim_spaces s = rev (dropWhile (\<lambda>c. c = 32) (rev (dropWhile (\<lambda>c. c = 32) s)))"

definition normalize_spec :: "(str \<Rightarrow> str) \<Rightarrow> (nat \<Rightarrow> bool) \<Rightarrow> str \<Rightarrow> str" where
  "normalize_spec lower isalnum s =
     trim_spaces (collapse_ws (filter (\<lambda>c. isalnum c \<or> str_isspace c) (lower s)))"

text \<open>The words that \<open>split\<close> returns: none is empty, none holds whitespace.\<close>

definition words_ok :: "str list \<Rightarrow> bool" where
  "words_ok ws \<longleftrightarrow> (\<forall>w\<in>set ws. w \<noteq> [] \<and> (\<forall>c\<in>set w. \<not> str_isspace c))"

section \<open>Unfolding the splitter\<close>

lemma str_split_Nil: "str_split [] = []"
  by (simp add: str_split.simps)

lemma str_split_Cons:
  "str_split (c # cs) =
     (if str_isspace c then str_split cs
      else (c # takeWhile (\<lambda>e. \<not> str_isspace e) cs)
             # str_split (dropWhile (\<lambda>e. \<not> str_isspace e) cs))"
  by (subst str_split.simps, subst (2) str_split.simps) simp

section \<open>Facts about splitting and joining\<close>

lemma isspace_32 [simp]: "str_isspace 32"
  by (simp add: str_isspace_def)

lemma str_split_step:
  "str_split (c # cs) =
     (if str_isspace c then str_split cs
      else if cs = [] \<or> str_isspace (hd cs) then [c] # str_split cs
      else (c # hd (str_split cs)) # tl (str_split cs))"
proof (cases cs)
  case Nil
  then show ?thesis by (simp add: str_split_Cons str_split_Nil)
next
  case (Cons d ds)
  then show ?thesis by (simp add: str_split_Cons)
qed

lemma str_split_Nil_iff: "str_split s = [] \<longleftrightarrow> (\<forall>c\<in>set s. str_isspace c)"
  by (induction s) (simp_all add: str_split_Nil str_split_step)

lemma str_split_nonspace_head:
  "\<not> str_isspace d \<Longrightarrow> str_split (d # ds) \<noteq> []"
  by (simp add: str_split_Nil_iff)

lemma str_split_cases:
  obtains (space) "str_isspace c" "str_split (c # cs) = str_split cs"
  | (single) "\<not> str_isspace c" "cs = [] \<or> str_isspace (hd cs)"
      "str_split (c # cs) = [c] # str_split cs"
  | (grow) w r where "\<not> str_isspace c" "cs \<noteq> []" "\<not> str_isspace (hd cs)"
      "str_split cs = w # r" "str_split (c # cs) = (c # w) # r"
proof (cases "str_isspace c")
  case True
  then have "str_split (c # cs) = str_split cs" by (simp add: str_split_step)
  with True show ?thesis by (rule space)
next
  case False
  show ?thesis
  proof (cases "cs = [] \<or> str_isspace (hd cs)")
    case True
    with False have "str_split (c # cs) = [c] # str_split cs"
      by (simp only: str_split_step if_True if_False)
    with False True show ?thesis by (intro single)
  next
    case nsp: False
    then have "\<not> (\<forall>x\<in>set cs. str_isspace x)" by (cases cs) auto
    then obtain w r where wr: "str_split cs = w # r"
      using str_split_Nil_iff [of cs] by (cases "str_split cs") auto
    from False nsp have "str_split (c # cs) = (c # hd (str_split cs)) # tl (str_split cs)"
      by (simp only: str_split_step if_True if_False)
    with wr have "str_split (c # cs) = (c # w) # r" by simp
    with False nsp wr show ?thesis by (intro grow) simp_all
  qed
qed

lemma words_ok_split: "words_ok (str_split s)"
proof (induction s)
  case Nil
  then show ?case by (simp add: words_ok_def str_split_Nil)
next
  case (Cons c cs)
  show ?case
  proof (cases c cs rule: str_split_cases)
    case space
    with Cons show ?thesis by simp
  next
    case single
    with Cons show ?thesis by (simp add: words_ok_def)
  next
    case (grow w r)
    with Cons show ?thesis by (simp add: words_ok_def)
  qed
qed

lemma set_split: "w \<in> set (str_split s) \<Longrightarrow> set w \<subseteq> set s"
proof (induction s arbitrary: w)
  case Nil
  then show ?case by (simp add: str_split_Nil)
next
  case (Cons c cs)
  show ?case
  proof (cases c cs rule: str_split_cases)
    case space
    with Cons show ?thesis by auto
  next
    case single
    with Cons show ?thesis by auto
  next
    case (grow v r)
    with Cons.prems have "w = c # v \<or> w \<in> set r" by simp
    with Cons.IH [of v] Cons.IH [of w] grow show ?thesis by auto
  qed
qed

lemma str_join_Cons_word:
  "str_join sep ((c # w) # r) = c # str_join sep (w # r)"
  by (cases r) simp_all

lemma str_join_Cons:
  "str_join sep (w # r) = (if r = [] then w else w @ sep @ str_join sep r)"
  by (cases r) simp_all

lemma set_join: "set (str_join [32] ws) \<subseteq> insert 32 (\<Union>w\<in>set ws. set w)"
  by (induction ws) (auto simp: str_join_Cons)

lemma join_ends:
  "words_ok ws \<Longrightarrow> ws \<noteq> []
   \<Longrightarrow> str_join [32] ws \<noteq> [] \<and> \<not> str_isspace (hd (str_join [32] ws))
       \<and> \<not> str_isspace (last (str_join [32] ws))"
proof (induction ws)
  case Nil
  then show ?case by simp
next
  case (Cons w r)
  then obtain c cs where w: "w = c # cs" "\<not> str_isspace c" "\<forall>x\<in>set cs. \<not> str_isspace x"
    by (cases w) (auto simp: words_ok_def)
  show ?case
  proof (cases r)
    case Nil
    with w show ?thesis by (auto simp: last_ConsR)
  next
    case (Cons v r')
    with Cons.IH Cons.prems have "str_join [32] r \<noteq> [] \<and> \<not> str_isspace (last (str_join [32] r))"
      by (simp add: words_ok_def)
    with w Cons show ?thesis by (simp add: str_join_Cons)
  qed
qed

lemma split_word_sep:
  "w \<noteq> [] \<Longrightarrow> \<forall>c\<in>set w. \<not> str_isspace c
   \<Longrightarrow> str_split (w @ 32 # rest) = w # str_split rest"
proof (induction w)
  case Nil
  then show ?case by simp
next
  case (Cons c cs)
  show ?case
  proof (cases cs)
    case Nil
    with Cons.prems show ?thesis by (simp add: str_split_step)
  next
    case (Cons d ds)
    with Cons.IH Cons.prems show ?thesis by (simp add: str_split_step)
  qed
qed

lemma split_word:
  "w \<noteq> [] \<Longrightarrow> \<forall>c\<in>set w. \<not> str_isspace c \<Longrightarrow> str_split w = [w]"
proof (induction w)
  case Nil
  then show ?case by simp
next
  case (Cons c cs)
  show ?case
  proof (cases cs)
    case Nil
    with Cons.prems show ?thesis by (simp add: str_split_step str_split_Nil)
  next
    case (Cons d ds)
    with Cons.IH Cons.prems show ?thesis by (simp add: str_split_step)
  qed
qed

lemma split_join: "words_ok ws \<Longrightarrow> str_split (str_join [32] ws) = ws"
proof (induction ws)
  case Nil
  then show ?case by (simp add: str_split_Nil)
next
  case (Cons w r)
  then have w: "w \<noteq> []" "\<forall>c\<in>set w. \<not> str_isspace c" and r: "words_ok r"
    by (simp_all add: words_ok_def)
  show ?case
  proof (cases r)
    case Nil
    with w show ?thesis by (simp add: split_word)
  next
    case (Cons v r')
    with Cons.IH r w show ?thesis by (simp add: str_join_Cons split_word_sep)
  qed
qed

section \<open>The claims about the normalizer\<close>

lemma ascii_lower_stable:
  assumes "\<forall>c\<in>set t. c = 32 \<or> c \<in> set (ascii_lower s)"
  shows "ascii_lower t = t"
proof -
  have "\<not> (65 \<le> c \<and> c \<le> 90)" if "c \<in> set t" for c
    using assms that by (auto simp: ascii_lower_def split: if_splits)
  then show ?thesis
    unfolding ascii_lower_def by (intro map_idI) auto
qed

lemma clean_text_chars:
  assumes "c \<in> set (clean_text lower isalnum s)"
  shows "c = 32 \<or> (c \<in> set (lower s) \<and> (isalnum c \<or> str_isspace c))"
proof -
  let ?f = "filter (\<lambda>e. isalnum e \<or> str_isspace e) (lower s)"
  from assms set_join [of "str_split ?f"]
  have "c = 32 \<or> (\<exists>w\<in>set (str_split ?f). c \<in> set w)"
    by (auto simp: clean_text_def)
  then show ?thesis
  proof
    assume "c = 32"
    then show ?thesis by simp
  next
    assume "\<exists>w\<in>set (str_split ?f). c \<in> set w"
    then obtain w where "w \<in> set (str_split ?f)" "c \<in> set w" by blast
    with set_split [of w ?f] have "c \<in> set ?f" by blast
    then show ?thesis by simp
  qed
qed

text \<open>
  C8. The normalizer is idempotent: \<open>clean_text (clean_text s) = clean_text s\<close> for
  every string \<open>s\<close>. \<open>lower\<close> is the lowercase mapping of the host; what is used of it
  is that a string made only of spaces and of characters that occur in a lowercased
  string is its own lowercase.
\<close>

theorem clean_text_idempotent:
  assumes stable: "\<And>s t. \<forall>c\<in>set t. c = 32 \<or> c \<in> set (lower s) \<Longrightarrow> lower t = t"
  shows "clean_text lower isalnum (clean_text lower isalnum s) = clean_text lower isalnum s"
proof -
  let ?keep = "\<lambda>e. isalnum e \<or> str_isspace e"
  let ?ws = "str_split (filter ?keep (lower s))"
  let ?out = "clean_text lower isalnum s"
  have out: "?out = str_join [32] ?ws"
    by (simp add: clean_text_def)
  have chars: "\<forall>c\<in>set ?out. c = 32 \<or> (c \<in> set (lower s) \<and> ?keep c)"
    using clean_text_chars [of _ lower isalnum s] by blast
  have l: "lower ?out = ?out"
    using chars by (intro stable [of ?out s]) blast
  have k: "filter ?keep ?out = ?out"
    using chars by (auto simp: filter_id_conv)
  have sp: "str_split ?out = ?ws"
    unfolding out by (rule split_join [OF words_ok_split])
  have "clean_text lower isalnum ?out = str_join [32] (str_split (filter ?keep (lower ?out)))"
    by (simp add: clean_text_def)
  also have "\<dots> = str_join [32] ?ws"
    by (simp only: l k sp)
  finally show ?thesis by (simp only: out)
qed

theorem clean_text_idempotent_witness:
  "clean_text ascii_lower ascii_isalnum
     (clean_text ascii_lower ascii_isalnum (ascii ''Hello, World!''))
   = clean_text ascii_lower ascii_isalnum (ascii ''Hello, World!'')"
  by (rule clean_text_idempotent) (rule ascii_lower_stable)

lemma collapse_ws_Cons:
  "collapse_ws (c # cs) =
     (if str_isspace c then
        (if cs \<noteq> [] \<and> str_isspace (hd cs) then collapse_ws cs
         else 32 # collapse_ws cs)
      else c # collapse_ws cs)"
  by (cases cs) simp_all

lemma last_space_when_no_word:
  "cs \<noteq> [] \<Longrightarrow> str_split cs = [] \<Longrightarrow> str_isspace (last cs)"
  by (simp add: str_split_Nil_iff)

lemma collapse_ws_shape:
  "collapse_ws s =
     (if s \<noteq> [] \<and> str_isspace (hd s) then [32] else [])
       @ str_join [32] (str_split s)
       @ (if str_split s \<noteq> [] \<and> str_isspace (last s) then [32] else [])"
proof (induction s)
  case Nil
  then show ?case by (simp add: str_split_Nil)
next
  case (Cons c cs)
  show ?case
  proof (cases c cs rule: str_split_cases)
    case space
    show ?thesis
    proof (cases "cs = []")
      case True
      with space show ?thesis by (simp add: str_split_Nil)
    next
      case False
      with space Cons show ?thesis by (simp add: collapse_ws_Cons)
    qed
  next
    case single
    show ?thesis
    proof (cases "cs = []")
      case True
      with single show ?thesis by (simp add: str_split_Nil)
    next
      case False
      with single have sp: "str_isspace (hd cs)" by simp
      show ?thesis
      proof (cases "str_split cs = []")
        case True
        with False have "str_isspace (last cs)" by (rule last_space_when_no_word)
        with single False sp True Cons show ?thesis
          by (simp add: collapse_ws_Cons)
      next
        case ne: False
        with single False sp Cons show ?thesis
          by (simp add: collapse_ws_Cons str_join_Cons)
      qed
    qed
  next
    case (grow w r)
    with Cons show ?thesis
      by (simp add: collapse_ws_Cons str_join_Cons_word)
  qed
qed

lemma trim_spaces_shape:
  assumes "J = [] \<or> (hd J \<noteq> 32 \<and> last J \<noteq> 32)"
  shows "trim_spaces ((if a then [32] else []) @ J @ (if b then [32] else [])) = J"
proof (cases "J = []")
  case True
  then show ?thesis by (simp add: trim_spaces_def)
next
  case False
  with assms obtain x xs where J: "J = x # xs" "x \<noteq> 32" by (cases J) auto
  from False assms obtain ys y where J': "J = ys @ [y]" "y \<noteq> 32"
    by (cases J rule: rev_cases) auto
  have "dropWhile (\<lambda>c. c = 32) ((if a then [32] else []) @ J @ (if b then [32] else []))
          = J @ (if b then [32] else [])"
    using J by simp
  moreover have "dropWhile (\<lambda>c. c = 32) (rev (J @ (if b then [32] else []))) = rev J"
    using J' by simp
  ultimately show ?thesis by (simp add: trim_spaces_def)
qed

lemma join_split_ends:
  "str_join [32] (str_split s) = []
   \<or> (hd (str_join [32] (str_split s)) \<noteq> 32 \<and> last (str_join [32] (str_split s)) \<noteq> 32)"
proof (cases "str_split s = []")
  case True
  then show ?thesis by simp
next
  case False
  from join_ends [OF words_ok_split False] isspace_32 show ?thesis by metis
qed

lemma trim_collapse: "trim_spaces (collapse_ws s) = str_join [32] (str_split s)"
  by (subst collapse_ws_shape) (rule trim_spaces_shape [OF join_split_ends])

lemma hello_world:
  "clean_text ascii_lower ascii_isalnum (ascii ''Hello, World!'') = ascii ''hello world''"
  by (simp add: clean_text_def ascii_lower_def ascii_isalnum_def ascii_def str_isspace_def
      str_split_Nil str_split_Cons)

text \<open>
  C9. The normalizer of the code is the normalizer as the specification describes it:
  for every string, \<open>clean_text\<close> gives what lowercasing, keeping the alphanumeric and
  whitespace characters, collapsing each run of whitespace into one ASCII space and
  trimming the spaces at both ends gives. In particular "Hello, World!" is normalized
  to "hello world", on every host whose lowercase mapping and alphanumeric class are,
  on ASCII, the ASCII ones.
\<close>

theorem clean_text_refines_spec:
  "clean_text lower isalnum s = normalize_spec lower isalnum s
   \<and> ((\<forall>t. (\<forall>c\<in>set t. c < 128) \<longrightarrow> lower1 t = ascii_lower t)
        \<longrightarrow> (\<forall>c<128. isalnum1 c = ascii_isalnum c)
        \<longrightarrow> clean_text lower1 isalnum1 (ascii ''Hello, World!'') = ascii ''hello world'')"
proof (intro conjI impI)
  show "clean_text lower isalnum s = normalize_spec lower isalnum s"
    by (simp add: clean_text_def normalize_spec_def trim_collapse)
next
  let ?h = "ascii ''Hello, World!''"
  assume low: "\<forall>t. (\<forall>c\<in>set t. c < 128) \<longrightarrow> lower1 t = ascii_lower t"
    and aln: "\<forall>c<128. isalnum1 c = ascii_isalnum c"
  have small: "\<forall>c\<in>set ?h. c < 128"
    by (simp add: ascii_def)
  with low have l: "lower1 ?h = ascii_lower ?h" by blast
  have small': "\<forall>c\<in>set (ascii_lower ?h). c < 128"
    by (simp add: ascii_def ascii_lower_def)
  have "filter (\<lambda>e. isalnum1 e \<or> str_isspace e) (ascii_lower ?h)
          = filter (\<lambda>e. ascii_isalnum e \<or> str_isspace e) (ascii_lower ?h)"
    using small' aln by (intro filter_cong) auto
  with l have "clean_text lower1 isalnum1 ?h = clean_text ascii_lower ascii_isalnum ?h"
    by (simp add: clean_text_def)
  then show "clean_text lower1 isalnum1 ?h = ascii ''hello world''"
    by (simp add: hello_world)
qed

theorem clean_text_refines_spec_witness:
  "clean_text ascii_lower ascii_isalnum (ascii ''Hello, World!'') = ascii ''hello world''
   \<and> normalize_spec ascii_lower ascii_isalnum (ascii ''Hello, World!'') = ascii ''hello world''"
proof -
  note inst = clean_text_refines_spec [of ascii_lower ascii_isalnum "ascii ''Hello, World!''"
      ascii_lower ascii_isalnum]
  have a: "clean_text ascii_lower ascii_isalnum (ascii ''Hello, World!'')
             = normalize_spec ascii_lower ascii_isalnum (ascii ''Hello, World!'')"
    using inst by blast
  have b: "clean_text ascii_lower ascii_isalnum (ascii ''Hello, World!'') = ascii ''hello world''"
    using inst by blast
  from a [symmetric] b show ?thesis by simp
qed

section \<open>Facts about the strings and the store\<close>

lemma ascii_eq_Nil [simp]: "ascii s = [] \<longleftrightarrow> s = []"
  by (simp add: ascii_def)

lemma states_distinct:
  "awaiting_original \<noteq> awaiting_user_input" "awaiting_user_input \<noteq> awaiting_original"
  by (simp_all add: awaiting_original_def awaiting_user_input_def ascii_def)

lemma strip_fox: "str_strip (ascii ''The quick fox'') = ascii ''The quick fox''"
  by (simp add: str_strip_def ascii_def str_isspace_def)

lemma UserSession_update_all [simp]:
  "(s::UserSession)\<lparr>original_text := a, state := b\<rparr> = \<lparr>original_text = a, state = b\<rparr>"
  by (cases s) simp

lemma buttons_of_plain [simp]: "buttons_of (Inr (plain t), db) = None"
  by (simp add: buttons_of_def plain_def)

lemma commit_plain_buttons [simp]: "buttons_of (commit db sid p s (plain t)) = None"
  by (simp add: buttons_of_def commit_def plain_def split: option.splits)

lemma commit_row:
  "snd (commit db sid p s rep) k = Some s'
   \<Longrightarrow> db k = Some s' \<or> (sid = Some k \<and> s' = (if p then insert_defaults s else s))"
  by (auto simp: commit_def split: option.splits if_splits)

section \<open>The branches of the handler\<close>

lemma handler_blank:
  "str_strip (case user_message data of None \<Rightarrow> [] | Some m \<Rightarrow> m) = []
   \<Longrightarrow> handler lower isalnum ratio data db = (Inr (plain text_enter), db)"
  by (simp add: handler_def)

lemma handler_create:
  "db k = None \<Longrightarrow> str_strip um \<noteq> []
   \<Longrightarrow> handler lower isalnum ratio \<lparr>user_message = Some um, session_id = Some k\<rparr> db
       = (Inr (plain text_unknown),
          db(k \<mapsto> \<lparr>original_text = None, state = Some awaiting_original\<rparr>))"
  by (simp add: handler_def query_first_def commit_def new_UserSession_def
      insert_defaults_def Let_def)

lemma handler_save:
  "db k = Some s \<Longrightarrow> state s = Some awaiting_original \<Longrightarrow> is_not (original_text s)
   \<Longrightarrow> str_strip um \<noteq> []
   \<Longrightarrow> handler lower isalnum ratio \<lparr>user_message = Some um, session_id = Some k\<rparr> db
       = (Inr (plain text_saved),
          db(k \<mapsto> \<lparr>original_text = Some (str_strip um), state = Some awaiting_user_input\<rparr>))"
  by (simp add: handler_def query_first_def commit_def Let_def)

lemma handler_missing:
  "db k = Some s \<Longrightarrow> state s = Some awaiting_user_input \<Longrightarrow> is_not (original_text s)
   \<Longrightarrow> str_strip um \<noteq> []
   \<Longrightarrow> handler lower isalnum ratio \<lparr>user_message = Some um, session_id = Some k\<rparr> db
       = (Inr (plain text_missing), db)"
  by (simp add: handler_def query_first_def commit_def Let_def states_distinct map_upd_triv)

lemma handler_compare:
  "db k = Some s \<Longrightarrow> state s = Some awaiting_user_input \<Longrightarrow> original_text s = Some orig
   \<Longrightarrow> orig \<noteq> [] \<Longrightarrow> str_strip um \<noteq> []
   \<Longrightarrow> handler lower isalnum ratio \<lparr>user_message = Some um, session_id = Some k\<rparr> db
       = (Inr \<lparr>reply_text = text_percent
                   @ str_of_int (ratio (clean_text lower isalnum orig)
                                       (clean_text lower isalnum (str_strip um)))
                   @ text_original @ orig @ text_yours @ str_strip um,
               end_session = False,
               buttons = Some [\<lparr>title = text_button, action_type = ascii ''text'',
                                 action_label = text_button\<rparr>]\<rparr>, db)"
  by (simp add: handler_def query_first_def commit_def Let_def states_distinct map_upd_triv
      is_not_def)

lemma handler_buttons:
  assumes "buttons_of (handler lower isalnum ratio data db) \<noteq> None"
  shows "\<exists>k s orig. session_id data = Some k \<and> db k = Some s
           \<and> state s = Some awaiting_user_input \<and> original_text s = Some orig \<and> orig \<noteq> []
           \<and> str_strip (case user_message data of None \<Rightarrow> [] | Some m \<Rightarrow> m) \<noteq> []"
proof (cases "query_first db (session_id data)")
  case None
  with assms show ?thesis
    by (simp add: handler_def Let_def new_UserSession_def split: if_splits)
next
  case (Some r)
  then obtain j where j: "session_id data = Some j" "db j = Some r"
    by (auto simp: query_first_def split: option.splits)
  with assms Some show ?thesis
    by (auto simp: handler_def Let_def is_not_def split: if_splits)
qed

lemma reset_found:
  "db k = Some s
   \<Longrightarrow> reset \<lparr>user_message = m, session_id = Some k\<rparr> db
       = (Inr (plain text_reset_done),
          db(k \<mapsto> \<lparr>original_text = None, state = Some awaiting_original\<rparr>))"
  by (simp add: reset_def query_first_def commit_def Let_def)

lemma reset_not_found:
  "query_first db sid = None
   \<Longrightarrow> reset \<lparr>user_message = m, session_id = sid\<rparr> db = (Inr (plain text_no_session), db)"
  by (simp add: reset_def Let_def)

lemma reset_buttons: "buttons_of (reset data db) = None"
  by (simp add: reset_def Let_def split: option.splits)

section \<open>The invariant of the store\<close>

lemma handler_row:
  assumes "snd (handler lower isalnum ratio data db) k = Some s'"
  shows "db k = Some s' \<or> s' = \<lparr>original_text = None, state = Some awaiting_original\<rparr>
       \<or> (\<exists>um. um \<noteq> [] \<and> s' = \<lparr>original_text = Some um, state = Some awaiting_user_input\<rparr>)"
proof (cases "query_first db (session_id data)")
  case None
  with assms show ?thesis
    by (auto simp: handler_def Let_def new_UserSession_def insert_defaults_def
        dest!: commit_row split: if_splits)
next
  case (Some r)
  then obtain j where j: "session_id data = Some j" "db j = Some r"
    by (auto simp: query_first_def split: option.splits)
  with assms Some show ?thesis
    by (auto simp: handler_def Let_def dest!: commit_row split: if_splits)
qed

lemma handler_preserves:
  assumes "store_ok db"
  shows "store_ok (snd (handler lower isalnum ratio data db))"
  unfolding store_ok_def
proof (intro allI impI)
  fix k s'
  assume "snd (handler lower isalnum ratio data db) k = Some s'"
  from handler_row [OF this] assms show "row_ok s'"
    by (auto simp: store_ok_def row_ok_def states_distinct)
qed

lemma reset_row:
  "snd (reset data db) k = Some s'
   \<Longrightarrow> db k = Some s' \<or> s' = \<lparr>original_text = None, state = Some awaiting_original\<rparr>"
  by (auto simp: reset_def Let_def dest!: commit_row split: option.splits)

lemma reset_preserves:
  assumes "store_ok db"
  shows "store_ok (snd (reset data db))"
  unfolding store_ok_def
proof (intro allI impI)
  fix k s'
  assume "snd (reset data db) k = Some s'"
  from reset_row [OF this] assms show "row_ok s'"
    by (auto simp: store_ok_def row_ok_def states_distinct)
qed

lemma run_preserves:
  "store_ok db \<Longrightarrow> store_ok (run lower isalnum ratio calls db)"
proof (induction calls arbitrary: db)
  case Nil
  then show ?case by simp
next
  case (Cons c calls)
  then show ?case
    by (cases c) (simp_all add: handler_preserves reset_preserves)
qed

lemma store_ok_empty: "store_ok Map.empty"
  by (simp add: store_ok_def)

section \<open>Facts about the edit distance\<close>

lemma lev_Nil2 [simp]: "lev xs [] = length xs"
  by (cases xs) simp_all

lemma lev_sym: "lev a b = lev b a"
  by (induction a b rule: lev.induct) (simp_all add: min.commute eq_commute)

lemma lev_refl [simp]: "lev x x = 0"
  by (induction x) simp_all

lemma lev_le: "lev a b \<le> length a + length b"
  by (induction a b rule: lev.induct) (auto simp: min_def)

lemma round_half_even_range:
  assumes "0 < d" "0 \<le> n" "n \<le> 100 * d"
  shows "0 \<le> round_half_even n d \<and> round_half_even n d \<le> 100"
proof -
  have q0: "0 \<le> n div d" using assms by (simp add: pos_imp_zdiv_nonneg_iff)
  have q100: "n div d \<le> 100"
    using assms zdiv_mono1 [of n "100 * d" d] by simp
  show ?thesis
  proof (cases "n div d = 100")
    case True
    have "n = d * (n div d) + n mod d" by simp
    with True have "n = 100 * d + n mod d" by simp
    moreover have "0 \<le> n mod d" using assms by simp
    ultimately have "n mod d = 0" using assms by linarith
    with True assms show ?thesis by (simp add: round_half_even_def Let_def)
  next
    case False
    with q100 have "n div d \<le> 99" by simp
    with q0 show ?thesis by (simp add: round_half_even_def Let_def)
  qed
qed

lemma round_half_even_full: "0 < d \<Longrightarrow> round_half_even (100 * d) d = 100"
  by (simp add: round_half_even_def Let_def)

lemma similarity_same: "similarity x x = 100"
proof (cases x)
  case Nil
  then show ?thesis by (simp add: similarity_def)
next
  case (Cons c cs)
  then have "0 < 2 * int (length x)" by simp
  from round_half_even_full [OF this] Cons show ?thesis
    by (simp add: similarity_def Let_def)
qed

section \<open>The claims about the two endpoints\<close>

text \<open>
  C1. The claim: for a session id that was never seen and a message that is not empty
  after trimming, the first POST to \<open>/handler\<close> creates the session, stores the message
  as \<open>original_text\<close>, moves the session to \<open>awaiting_user_input\<close> and answers
  with the "saved" text. The code does not: on an empty table the request with the
  message "The quick fox" and the session id "s1" is answered with the text of the
  unknown-state branch, which is not the "saved" text, and the row it leaves has no
  original text and the state \<open>awaiting_original\<close>.
\<close>

theorem first_post_not_saved:
  "handler ascii_lower ascii_isalnum similarity
     \<lparr>user_message = Some (ascii ''The quick fox''), session_id = Some (ascii ''s1'')\<rparr> Map.empty
   = (Inr \<lparr>reply_text = text_unknown, end_session = False, buttons = None\<rparr>,
      [ascii ''s1'' \<mapsto> \<lparr>original_text = None, state = Some awaiting_original\<rparr>])
   \<and> text_unknown \<noteq> text_saved"
proof -
  have "str_strip (ascii ''The quick fox'') \<noteq> []"
    by (simp add: strip_fox)
  then show ?thesis
    by (simp add: handler_create plain_def text_unknown_def text_saved_def)
qed

text \<open>
  C2. In every table that a sequence of \<open>/handler\<close> and \<open>/reset\<close> requests produces
  from the empty table, every row has \<open>original_text\<close> non-null if and only if its state
  is \<open>awaiting_user_input\<close>; and each of the two endpoints, run on a table where this
  holds of every row, leaves a table where it holds of every row (a row that \<open>/handler\<close>
  creates included).
\<close>

theorem session_invariant:
  "(run lower isalnum ratio calls Map.empty k = Some s
      \<longrightarrow> (original_text s \<noteq> None) = (state s = Some awaiting_user_input))
   \<and> ((\<forall>j r. db1 j = Some r \<longrightarrow> (original_text r \<noteq> None) = (state r = Some awaiting_user_input))
      \<longrightarrow> snd (handler lower isalnum ratio data1 db1) k1 = Some s1
      \<longrightarrow> (original_text s1 \<noteq> None) = (state s1 = Some awaiting_user_input))
   \<and> ((\<forall>j r. db2 j = Some r \<longrightarrow> (original_text r \<noteq> None) = (state r = Some awaiting_user_input))
      \<longrightarrow> snd (reset data2 db2) k2 = Some s2
      \<longrightarrow> (original_text s2 \<noteq> None) = (state s2 = Some awaiting_user_input))"
  using run_preserves [OF store_ok_empty, of lower isalnum ratio calls]
    handler_preserves [of db1 lower isalnum ratio data1] reset_preserves [of db2 data2]
  unfolding store_ok_def row_ok_def by blast

theorem session_invariant_witness:
  "run ascii_lower ascii_isalnum similarity
     [Handler \<lparr>user_message = Some (ascii ''The quick fox''), session_id = Some (ascii ''s1'')\<rparr>,
      Handler \<lparr>user_message = Some (ascii ''The quick fox''), session_id = Some (ascii ''s1'')\<rparr>]
     Map.empty (ascii ''s1'')
   = Some \<lparr>original_text = Some (ascii ''The quick fox''), state = Some awaiting_user_input\<rparr>
   \<and> snd (handler ascii_lower ascii_isalnum similarity
        \<lparr>user_message = Some (ascii ''The quick fox''), session_id = Some (ascii ''s1'')\<rparr>
        Map.empty) (ascii ''s1'')
     = Some \<lparr>original_text = None, state = Some awaiting_original\<rparr>
   \<and> snd (reset \<lparr>user_message = None, session_id = Some (ascii ''s1'')\<rparr>
        [ascii ''s1'' \<mapsto> \<lparr>original_text = Some (ascii ''The quick fox''),
                            state = Some awaiting_user_input\<rparr>]) (ascii ''s1'')
     = Some \<lparr>original_text = None, state = Some awaiting_original\<rparr>
   \<and> (original_text \<lparr>original_text = Some (ascii ''The quick fox''),
                       state = Some awaiting_user_input\<rparr> \<noteq> None)
     = (state \<lparr>original_text = Some (ascii ''The quick fox''),
                state = Some awaiting_user_input\<rparr> = Some awaiting_user_input)
   \<and> (original_text \<lparr>original_text = None, state = Some awaiting_original\<rparr> \<noteq> None)
     = (state \<lparr>original_text = None, state = Some awaiting_original\<rparr>
          = Some awaiting_user_input)"
proof -
  let ?r = "\<lparr>user_message = Some (ascii ''The quick fox''), session_id = Some (ascii ''s1'')\<rparr>"
  let ?full = "\<lparr>original_text = Some (ascii ''The quick fox''), state = Some awaiting_user_input\<rparr>"
  let ?fresh = "\<lparr>original_text = None, state = Some awaiting_original\<rparr>"
  let ?db = "[ascii ''s1'' \<mapsto> ?full]"
  have ne: "str_strip (ascii ''The quick fox'') \<noteq> []"
    by (simp add: strip_fox)
  have e2: "snd (handler ascii_lower ascii_isalnum similarity ?r Map.empty) (ascii ''s1'')
              = Some ?fresh"
    using ne by (simp add: handler_create)
  have e1: "run ascii_lower ascii_isalnum similarity [Handler ?r, Handler ?r] Map.empty
              (ascii ''s1'') = Some ?full"
    using ne by (simp add: handler_create handler_save is_not_def strip_fox)
  have e3: "snd (reset \<lparr>user_message = None, session_id = Some (ascii ''s1'')\<rparr> ?db)
              (ascii ''s1'') = Some ?fresh"
    by (simp add: reset_found)
  have h1: "\<forall>j r. (Map.empty :: user_sessions) j = Some r
              \<longrightarrow> (original_text r \<noteq> None) = (state r = Some awaiting_user_input)"
    by simp
  have h2: "\<forall>j r. ?db j = Some r
              \<longrightarrow> (original_text r \<noteq> None) = (state r = Some awaiting_user_input)"
    by (simp add: fun_upd_def)
  from session_invariant [of ascii_lower ascii_isalnum similarity "[Handler ?r, Handler ?r]"
      "ascii ''s1''" ?full Map.empty ?r "ascii ''s1''" ?fresh ?db
      "\<lparr>user_message = None, session_id = Some (ascii ''s1'')\<rparr>" "ascii ''s1''" ?fresh]
    e1 e2 e3 h1 h2
  show ?thesis by blast
qed

text \<open>
  C3, as stated: for every session in the state \<open>awaiting_user_input\<close> whose
  \<open>original_text\<close> is set, and every message that is not empty, \<open>/handler\<close> answers
  with the similarity result and one button. It fails for an \<open>original_text\<close> that is set
  to the empty string: the test \<open>not session.original_text\<close> of line 149 takes the empty
  string as missing, and the answer is the diagnostic text, without buttons.
\<close>

theorem handler_empty_original_counterexample:
  "original_text \<lparr>original_text = Some [], state = Some awaiting_user_input\<rparr> \<noteq> None
   \<and> str_strip (ascii ''fox'') \<noteq> []
   \<and> handler ascii_lower ascii_isalnum similarity
        \<lparr>user_message = Some (ascii ''fox''), session_id = Some (ascii ''s1'')\<rparr>
        [ascii ''s1'' \<mapsto> \<lparr>original_text = Some [], state = Some awaiting_user_input\<rparr>]
      = (Inr \<lparr>reply_text = text_missing, end_session = False, buttons = None\<rparr>,
         [ascii ''s1'' \<mapsto> \<lparr>original_text = Some [], state = Some awaiting_user_input\<rparr>])"
proof -
  have h: "str_strip (ascii ''fox'') \<noteq> []"
    by (simp add: str_strip_def ascii_def str_isspace_def)
  show ?thesis
    using h handler_missing [of "[ascii ''s1'' \<mapsto> \<lparr>original_text = Some [], state = Some awaiting_user_input\<rparr>]"
        "ascii ''s1''" "\<lparr>original_text = Some [], state = Some awaiting_user_input\<rparr>" "ascii ''fox''"
        ascii_lower ascii_isalnum similarity]
    by (simp add: is_not_def plain_def)
qed

text \<open>
  C3, amended: for every session in the state \<open>awaiting_user_input\<close> whose
  \<open>original_text\<close> is set to a string that is not empty, and every message that is not
  empty after trimming, \<open>/handler\<close> leaves the table as it is and answers with the text
  made of the score of the two normalized texts as a percentage, the original text as it
  was stored, and the trimmed message, with exactly one button, whose action has the type
  "text". An answer of \<open>/handler\<close> has buttons only in this branch, and an answer of
  \<open>/reset\<close> never has.
\<close>

theorem handler_similarity_result:
  "(db k = Some s \<longrightarrow> state s = Some awaiting_user_input \<longrightarrow> original_text s = Some orig
      \<longrightarrow> orig \<noteq> [] \<longrightarrow> str_strip um \<noteq> []
      \<longrightarrow> handler lower isalnum ratio \<lparr>user_message = Some um, session_id = Some k\<rparr> db
          = (Inr \<lparr>reply_text = text_percent
                     @ str_of_int (ratio (clean_text lower isalnum orig)
                                         (clean_text lower isalnum (str_strip um)))
                     @ text_original @ orig @ text_yours @ str_strip um,
                  end_session = False,
                  buttons = Some [\<lparr>title = text_button, action_type = ascii ''text'',
                                    action_label = text_button\<rparr>]\<rparr>, db))
   \<and> (buttons_of (handler lower isalnum ratio data1 db1) \<noteq> None
      \<longrightarrow> (\<exists>j r t. session_id data1 = Some j \<and> db1 j = Some r
             \<and> state r = Some awaiting_user_input \<and> original_text r = Some t \<and> t \<noteq> []
             \<and> str_strip (case user_message data1 of None \<Rightarrow> [] | Some m \<Rightarrow> m) \<noteq> []))
   \<and> buttons_of (reset data2 db2) = None"
  using handler_compare [of db k s orig um lower isalnum ratio]
    handler_buttons [of lower isalnum ratio data1 db1] reset_buttons [of data2 db2]
  by blast

theorem handler_similarity_result_witness:
  "handler ascii_lower ascii_isalnum similarity
     \<lparr>user_message = Some (ascii '' fox! ''), session_id = Some (ascii ''s1'')\<rparr>
     [ascii ''s1'' \<mapsto> \<lparr>original_text = Some (ascii ''Fox''), state = Some awaiting_user_input\<rparr>]
   = (Inr \<lparr>reply_text = text_percent @ ascii ''100'' @ text_original @ ascii ''Fox''
                @ text_yours @ ascii ''fox!'',
            end_session = False,
            buttons = Some [\<lparr>title = text_button, action_type = ascii ''text'',
                              action_label = text_button\<rparr>]\<rparr>,
      [ascii ''s1'' \<mapsto> \<lparr>original_text = Some (ascii ''Fox''), state = Some awaiting_user_input\<rparr>])
   \<and> buttons_of (handler ascii_lower ascii_isalnum similarity
        \<lparr>user_message = Some (ascii '' fox! ''), session_id = Some (ascii ''s1'')\<rparr>
        [ascii ''s1'' \<mapsto> \<lparr>original_text = Some (ascii ''Fox''),
                            state = Some awaiting_user_input\<rparr>]) \<noteq> None"
proof -
  let ?d = "\<lparr>user_message = Some (ascii '' fox! ''), session_id = Some (ascii ''s1'')\<rparr>"
  let ?s = "\<lparr>original_text = Some (ascii ''Fox''), state = Some awaiting_user_input\<rparr>"
  let ?db = "[ascii ''s1'' \<mapsto> ?s]"
  have st: "str_strip (ascii '' fox! '') = ascii ''fox!''"
    by (simp add: str_strip_def ascii_def str_isspace_def)
  have c1: "clean_text ascii_lower ascii_isalnum (ascii ''Fox'') = ascii ''fox''"
    by (simp add: clean_text_def ascii_lower_def ascii_isalnum_def ascii_def str_isspace_def
        str_split_Nil str_split_Cons)
  have c2: "clean_text ascii_lower ascii_isalnum (ascii ''fox!'') = ascii ''fox''"
    by (simp add: clean_text_def ascii_lower_def ascii_isalnum_def ascii_def str_isspace_def
        str_split_Nil str_split_Cons)
  have n: "str_of_int 100 = ascii ''100''"
    by (simp add: str_of_int_def digits.simps ascii_def)
  have e: "handler ascii_lower ascii_isalnum similarity ?d ?db
      = (Inr \<lparr>reply_text = text_percent @ ascii ''100'' @ text_original @ ascii ''Fox''
                   @ text_yours @ ascii ''fox!'',
               end_session = False,
               buttons = Some [\<lparr>title = text_button, action_type = ascii ''text'',
                                 action_label = text_button\<rparr>]\<rparr>, ?db)"
    using handler_similarity_result [of ?db "ascii ''s1''" ?s "ascii ''Fox''" "ascii '' fox! ''"
        ascii_lower ascii_isalnum similarity]
    by (simp add: st c1 c2 n similarity_same)
  then show ?thesis by (simp add: buttons_of_def)
qed

text \<open>
  C4. \<open>/reset\<close> on a session that exists clears \<open>original_text\<close>, sets the state to
  \<open>awaiting_original\<close> and answers with the confirmation; on a session id that has no
  row (or a body without a session id) it answers "session not found" and leaves the
  table as it is, while \<open>/handler\<close> with such a session id and a message that is not
  empty leaves a row for it.
\<close>

theorem reset_behaviour:
  "(db k = Some s \<longrightarrow>
      reset \<lparr>user_message = m, session_id = Some k\<rparr> db
      = (Inr \<lparr>reply_text = text_reset_done, end_session = False, buttons = None\<rparr>,
         db(k \<mapsto> \<lparr>original_text = None, state = Some awaiting_original\<rparr>)))
   \<and> (query_first db1 sid = None \<longrightarrow>
      reset \<lparr>user_message = m1, session_id = sid\<rparr> db1
      = (Inr \<lparr>reply_text = text_no_session, end_session = False, buttons = None\<rparr>, db1))
   \<and> (db2 k2 = None \<longrightarrow> str_strip um \<noteq> [] \<longrightarrow>
      snd (handler lower isalnum ratio \<lparr>user_message = Some um, session_id = Some k2\<rparr> db2) k2
        \<noteq> None)"
  using reset_found [of db k s m] reset_not_found [of db1 sid m1]
    handler_create [of db2 k2 um lower isalnum ratio]
  by (simp add: plain_def)

theorem reset_behaviour_witness:
  "reset \<lparr>user_message = None, session_id = Some (ascii ''s1'')\<rparr>
     [ascii ''s1'' \<mapsto> \<lparr>original_text = Some (ascii ''The quick fox''),
                         state = Some awaiting_user_input\<rparr>]
   = (Inr \<lparr>reply_text = text_reset_done, end_session = False, buttons = None\<rparr>,
      [ascii ''s1'' \<mapsto> \<lparr>original_text = None, state = Some awaiting_original\<rparr>])
   \<and> reset \<lparr>user_message = None, session_id = Some (ascii ''s1'')\<rparr> Map.empty
   = (Inr \<lparr>reply_text = text_no_session, end_session = False, buttons = None\<rparr>, Map.empty)
   \<and> snd (handler ascii_lower ascii_isalnum similarity
        \<lparr>user_message = Some (ascii ''The quick fox''), session_id = Some (ascii ''s1'')\<rparr>
        Map.empty) (ascii ''s1'') \<noteq> None"
proof -
  have ne: "str_strip (ascii ''The quick fox'') \<noteq> []"
    by (simp add: strip_fox)
  have q: "query_first Map.empty (Some (ascii ''s1'')) = None"
    by (simp add: query_first_def)
  from reset_behaviour [of "[ascii ''s1'' \<mapsto> \<lparr>original_text = Some (ascii ''The quick fox''),
        state = Some awaiting_user_input\<rparr>]" "ascii ''s1''"
      "\<lparr>original_text = Some (ascii ''The quick fox''), state = Some awaiting_user_input\<rparr>"
      None Map.empty "Some (ascii ''s1'')" None Map.empty "ascii ''s1''" "ascii ''The quick fox''"
      ascii_lower ascii_isalnum similarity] ne q
  show ?thesis by simp
qed

text \<open>
  C5. For a session id without a row and a message that is not empty after trimming:
  the state of the object that \<open>/handler\<close> constructs is unset, so the request is
  answered by the unknown-state branch with the generic error text, and the row that is
  written has the state \<open>awaiting_original\<close> (the column default) and no original text.
\<close>

theorem handler_fresh_session:
  "db k = None \<Longrightarrow> str_strip um \<noteq> []
   \<Longrightarrow> state new_UserSession = None
     \<and> state new_UserSession \<noteq> Some awaiting_original
     \<and> state new_UserSession \<noteq> Some awaiting_user_input
     \<and> handler lower isalnum ratio \<lparr>user_message = Some um, session_id = Some k\<rparr> db
       = (Inr \<lparr>reply_text = text_unknown, end_session = False, buttons = None\<rparr>,
          db(k \<mapsto> \<lparr>original_text = None, state = Some awaiting_original\<rparr>))"
  by (simp add: handler_create plain_def new_UserSession_def)

theorem handler_fresh_session_witness:
  "Map.empty (ascii ''s2'') = (None :: UserSession option)
   \<and> str_strip (ascii ''hello'') \<noteq> []
   \<and> handler ascii_lower ascii_isalnum similarity
        \<lparr>user_message = Some (ascii ''hello''), session_id = Some (ascii ''s2'')\<rparr> Map.empty
       = (Inr \<lparr>reply_text = text_unknown, end_session = False, buttons = None\<rparr>,
          [ascii ''s2'' \<mapsto> \<lparr>original_text = None, state = Some awaiting_original\<rparr>])"
proof -
  have h1: "(Map.empty :: user_sessions) (ascii ''s2'') = None" by simp
  have h2: "str_strip (ascii ''hello'') \<noteq> []"
    by (simp add: str_strip_def ascii_def str_isspace_def)
  show ?thesis
    using h1 h2
      handler_fresh_session [of Map.empty "ascii ''s2''" "ascii ''hello''"
        ascii_lower ascii_isalnum similarity]
    by simp
qed

text \<open>
  C6. For every session id and every message that is empty after trimming (or absent),
  \<open>/handler\<close> answers with the prompt for input, \<open>end_session\<close> false and no buttons,
  and the table is as it was: no row is created and none is changed.
\<close>

theorem handler_empty_message:
  "str_strip (case user_message data of None \<Rightarrow> [] | Some m \<Rightarrow> m) = []
   \<Longrightarrow> handler lower isalnum ratio data db
       = (Inr \<lparr>reply_text = text_enter, end_session = False, buttons = None\<rparr>, db)"
  by (simp add: handler_blank plain_def)

theorem handler_empty_message_witness:
  "str_strip (case user_message \<lparr>user_message = Some (ascii ''  ''), session_id = Some (ascii ''s1'')\<rparr>
        of None \<Rightarrow> [] | Some m \<Rightarrow> m) = []
   \<and> handler ascii_lower ascii_isalnum similarity
        \<lparr>user_message = Some (ascii ''  ''), session_id = Some (ascii ''s1'')\<rparr> Map.empty
       = (Inr \<lparr>reply_text = text_enter, end_session = False, buttons = None\<rparr>, Map.empty)"
proof -
  have h: "str_strip (case user_message \<lparr>user_message = Some (ascii ''  ''), session_id = Some (ascii ''s1'')\<rparr>
        of None \<Rightarrow> [] | Some m \<Rightarrow> m) = []"
    by (simp add: str_strip_def ascii_def str_isspace_def)
  show ?thesis using h handler_empty_message [OF h] by simp
qed

text \<open>
  C7. For every session in the state \<open>awaiting_user_input\<close> whose \<open>original_text\<close> is
  unset, and every message that is not empty after trimming, \<open>/handler\<close> changes
  nothing in the table and answers, as a normal answer and not a failure, with the
  diagnostic text that asks to enter the text again, without buttons.
\<close>

theorem handler_missing_original:
  "db k = Some s \<Longrightarrow> state s = Some awaiting_user_input \<Longrightarrow> original_text s = None
   \<Longrightarrow> str_strip um \<noteq> []
   \<Longrightarrow> handler lower isalnum ratio \<lparr>user_message = Some um, session_id = Some k\<rparr> db
       = (Inr \<lparr>reply_text = text_missing, end_session = False, buttons = None\<rparr>, db)"
  by (simp add: handler_missing is_not_def plain_def)

theorem handler_missing_original_witness:
  "str_strip (ascii ''hello'') \<noteq> []
   \<and> handler ascii_lower ascii_isalnum similarity
        \<lparr>user_message = Some (ascii ''hello''), session_id = Some (ascii ''s3'')\<rparr>
        [ascii ''s3'' \<mapsto> \<lparr>original_text = None, state = Some awaiting_user_input\<rparr>]
       = (Inr \<lparr>reply_text = text_missing, end_session = False, buttons = None\<rparr>,
          [ascii ''s3'' \<mapsto> \<lparr>original_text = None, state = Some awaiting_user_input\<rparr>])"
proof -
  let ?s = "\<lparr>original_text = None, state = Some awaiting_user_input\<rparr>"
  have h1: "[ascii ''s3'' \<mapsto> ?s] (ascii ''s3'') = Some ?s" by simp
  have h2: "state ?s = Some awaiting_user_input" by simp
  have h3: "original_text ?s = None" by simp
  have h4: "str_strip (ascii ''hello'') \<noteq> []"
    by (simp add: str_strip_def ascii_def str_isspace_def)
  show ?thesis
    using h1 h2 h3 h4
      handler_missing_original [of "[ascii ''s3'' \<mapsto> ?s]" "ascii ''s3''" ?s "ascii ''hello''"
        ascii_lower ascii_isalnum similarity]
    by simp
qed

section \<open>The claim about the similarity scorer\<close>

text \<open>
  C10. The scorer, as the specification describes it, is symmetric, on the normalized
  texts that \<open>/handler\<close> passes to it as on any two strings; a string compared with
  itself scores 100; and every score is an integer from 0 to 100.
\<close>

theorem similarity_properties:
  "similarity (clean_text lower isalnum a) (clean_text lower isalnum b)
     = similarity (clean_text lower isalnum b) (clean_text lower isalnum a)
   \<and> similarity x y = similarity y x
   \<and> similarity x x = 100
   \<and> 0 \<le> similarity x y \<and> similarity x y \<le> 100"
proof -
  have sym: "similarity u v = similarity v u" for u v
    using lev_sym [of u v] by (simp add: similarity_def Let_def add.commute)
  have range: "0 \<le> similarity x y \<and> similarity x y \<le> 100"
  proof (cases "int (length x) + int (length y) = 0")
    case True
    then show ?thesis by (simp add: similarity_def)
  next
    case False
    then have d: "0 < int (length x) + int (length y)" by linarith
    have l: "int (lev x y) \<le> int (length x) + int (length y)"
      using lev_le [of x y] by linarith
    show ?thesis
      using False l
        round_half_even_range [OF d, of "100 * (int (length x) + int (length y) - int (lev x y))"]
      by (simp add: similarity_def Let_def)
  qed
  show ?thesis using sym similarity_same range by blast
qed

end
